theory Spec2Isabelle
  imports Complex_Main
begin

section \<open>The detectors package: \<^verbatim>\<open>pyxem/detectors/__init__.py\<close>\<close>

text \<open>
  The package file consists of a docstring, three \<^verbatim>\<open>from .module import Class\<close>
  statements and the assignment of \<^verbatim>\<open>__all__\<close>. It defines no function: the only
  name-to-value table it has is its own dictionary, \<^verbatim>\<open>vars(pyxem.detectors)\<close>, which
  the statements of the file fill, and the list \<^verbatim>\<open>__all__\<close>.

  The three classes are defined in submodules outside the two files modelled here, so a
  class is modelled by its identity only.
\<close>

datatype detector = GenericFlatDetector | Medipix256x256Detector | Medipix515x515Detector

text \<open>The Python identifier under which a class is imported.\<close>

fun class_name :: "detector \<Rightarrow> string" where
  "class_name GenericFlatDetector = ''GenericFlatDetector''"
| "class_name Medipix256x256Detector = ''Medipix256x256Detector''"
| "class_name Medipix515x515Detector = ''Medipix515x515Detector''"

text \<open>
  The values a dictionary holds. \<open>PyNone\<close> is \<^verbatim>\<open>None\<close>. \<open>EnvValue a\<close> is the value of
  the attribute \<open>a\<close> that the import system sets from where and how the package is
  installed (its loader, its spec, its paths, the builtins); only its place is known
  here. \<open>Printer\<close> is the kind of object the interpreter's \<^verbatim>\<open>site\<close> module installs as
  the builtins \<^verbatim>\<open>copyright\<close>, \<^verbatim>\<open>credits\<close> and \<^verbatim>\<open>license\<close>; it is used by the build
  manifest below.
\<close>

datatype py_value =
    DetectorClass detector
  | Submodule string
  | StrList "string list"
  | Str string
  | Printer string
  | PyNone
  | EnvValue string

datatype py_error =
    AttributeError string
  | NameError string
  | FileNotFoundError string
  | ExecError string
  | KeyError string
  | TypeError string

type_synonym namespace = "string \<rightharpoonup> py_value"

text \<open>
  A module dictionary keeps its keys in the order of their first binding; binding a key
  again replaces the value in place.
\<close>

type_synonym module_dict = "(string \<times> py_value) list"

fun dict_set :: "string \<Rightarrow> py_value \<Rightarrow> module_dict \<Rightarrow> module_dict" where
  "dict_set k v [] = [(k, v)]"
| "dict_set k v ((k', v') # rest) =
     (if k' = k then (k, v) # rest else (k', v') # dict_set k v rest)"

text \<open>
  The dictionary as the import system hands it to the file: the attributes every package
  gets before its first statement runs, in the order the interpreter sets them.
\<close>

definition import_attrs :: module_dict where
  "import_attrs =
    [(''__name__'', Str ''pyxem.detectors''),
     (''__doc__'', PyNone),
     (''__package__'', Str ''pyxem.detectors''),
     (''__loader__'', EnvValue ''__loader__''),
     (''__spec__'', EnvValue ''__spec__''),
     (''__path__'', EnvValue ''__path__''),
     (''__file__'', EnvValue ''__file__''),
     (''__cached__'', EnvValue ''__cached__''),
     (''__builtins__'', EnvValue ''__builtins__'')]"

text \<open>
  The statements of the file. \<open>ImportFrom m c\<close> is \<^verbatim>\<open>from .m import c\<close>: loading the
  submodule binds it in the package under its own name, then the class is bound under the
  class name.
\<close>

datatype stmt =
    Docstring string
  | ImportFrom string detector
  | AssignAll "string list"

fun exec_stmt :: "module_dict \<Rightarrow> stmt \<Rightarrow> module_dict" where
  "exec_stmt ns (Docstring s) = dict_set ''__doc__'' (Str s) ns"
| "exec_stmt ns (ImportFrom m c) =
     dict_set (class_name c) (DetectorClass c) (dict_set m (Submodule m) ns)"
| "exec_stmt ns (AssignAll xs) = dict_set ''__all__'' (StrList xs) ns"

definition detectors_init :: "stmt list" where
  "detectors_init =
    [Docstring ''Detectors defined fro pyFAI integration'',
     ImportFrom ''generic_flat_detector'' GenericFlatDetector,
     ImportFrom ''medipix_256x256'' Medipix256x256Detector,
     ImportFrom ''medipix_515x515'' Medipix515x515Detector,
     AssignAll [''GenericFlatDetector'', ''Medipix256x256Detector'', ''Medipix515x515Detector'']]"

text \<open>The dictionary of the package once the file has run.\<close>

definition module_ns :: module_dict where
  "module_ns = foldl exec_stmt import_attrs detectors_init"

text \<open>
  Reading the dictionary, \<^verbatim>\<open>vars(pyxem.detectors)[key]\<close>: an unbound key raises, nothing
  is substituted.
\<close>

definition dict_get :: "module_dict \<Rightarrow> string \<Rightarrow> py_error + py_value" where
  "dict_get ns key = (case map_of ns key of None \<Rightarrow> Inl (KeyError key) | Some v \<Rightarrow> Inr v)"

text \<open>
  Attribute access \<^verbatim>\<open>module.key\<close>, as far as the dictionary decides it: it finds what
  the dictionary binds and raises \<^verbatim>\<open>AttributeError\<close> otherwise. (The attributes every
  module object has from its type, \<^verbatim>\<open>__class__\<close> and the like, are not in the dictionary
  and not modelled.)
\<close>

definition getattr :: "module_dict \<Rightarrow> string \<Rightarrow> py_error + py_value" where
  "getattr ns key = (case map_of ns key of None \<Rightarrow> Inl (AttributeError key) | Some v \<Rightarrow> Inr v)"

text \<open>Lookup by name in the package, and the listing of its public names.\<close>

definition get :: "string \<Rightarrow> py_error + py_value" where
  "get key = dict_get module_ns key"

definition listing :: "py_error + py_value" where
  "listing = dict_get module_ns ''__all__''"

text \<open>
  \<^verbatim>\<open>from pyxem.detectors import *\<close>. With \<^verbatim>\<open>__all__\<close> bound, its items are taken in
  turn (the items of a list, the characters of a string; a class, a module, a printer
  and \<^verbatim>\<open>None\<close> are not iterable and raise \<^verbatim>\<open>TypeError\<close>, and an environment value,
  which no statement binds there, is treated alike) and each is read as an attribute,
  the first unbound one raising. Without \<^verbatim>\<open>__all__\<close>, every key of the dictionary that does not begin with
  an underscore is taken. The result is the list of bindings made, in order.
\<close>

fun lookup_all :: "module_dict \<Rightarrow> string list \<Rightarrow> py_error + (string \<times> py_value) list" where
  "lookup_all ns [] = Inr []"
| "lookup_all ns (n # rest) =
     (case getattr ns n of
        Inl e \<Rightarrow> Inl e
      | Inr v \<Rightarrow> (case lookup_all ns rest of Inl e \<Rightarrow> Inl e | Inr bs \<Rightarrow> Inr ((n, v) # bs)))"

fun is_public :: "string \<Rightarrow> bool" where
  "is_public [] = True"
| "is_public (c # cs) = (c \<noteq> CHR ''_'')"

definition star_import :: "module_dict \<Rightarrow> py_error + (string \<times> py_value) list" where
  "star_import ns =
     (case map_of ns ''__all__'' of
        None \<Rightarrow> Inr (filter (\<lambda>(k, v). is_public k) ns)
      | Some (StrList xs) \<Rightarrow> lookup_all ns xs
      | Some (Str s) \<Rightarrow> lookup_all ns (map (\<lambda>c. [c]) s)
      | Some _ \<Rightarrow> Inl (TypeError ''__all__''))"

text \<open>
  Reading the dictionary leaves it as it is. The lookup in state-passing form, and two
  lookups of one name in a row.
\<close>

definition lookup_op :: "string \<Rightarrow> module_dict \<Rightarrow> (py_error + py_value) \<times> module_dict" where
  "lookup_op key ns = (dict_get ns key, ns)"

definition get_twice :: "string \<Rightarrow> (py_error + py_value) \<times> (py_error + py_value)" where
  "get_twice key =
     (let (r1, s1) = lookup_op key module_ns;
          (r2, s2) = lookup_op key s1
      in (r1, r2))"

section \<open>The detector descriptor as a value\<close>

text \<open>
  Modelled from the spec: the descriptor classes themselves
  (\<^verbatim>\<open>generic_flat_detector.py\<close>, \<^verbatim>\<open>medipix_256x256.py\<close>, \<^verbatim>\<open>medipix_515x515.py\<close>)
  are imported by the package file but lie outside the two files modelled here. The spec gives a
  descriptor six attributes: two pixel counts (integers), two pixel sizes (reals) and two
  optional opaque handles, and speaks of serialising a descriptor to its field tuple and
  of reconstructing one from that tuple. \<open>'h\<close> is the type of the handles.
\<close>

record 'h DetectorGeometry =
  pixel_count_x :: int
  pixel_count_y :: int
  pixel_size_x :: real
  pixel_size_y :: real
  spline_distortion_reference :: "'h option"
  mask_reference :: "'h option"

type_synonym 'h field_tuple = "int \<times> int \<times> real \<times> real \<times> 'h option \<times> 'h option"

definition to_field_tuple :: "'h DetectorGeometry \<Rightarrow> 'h field_tuple" where
  "to_field_tuple d =
     (pixel_count_x d, pixel_count_y d, pixel_size_x d, pixel_size_y d,
      spline_distortion_reference d, mask_reference d)"

definition from_field_tuple :: "'h field_tuple \<Rightarrow> 'h DetectorGeometry" where
  "from_field_tuple t =
     (case t of (cx, cy, sx, sy, spline_ref, mask_ref) \<Rightarrow>
        \<lparr>pixel_count_x = cx, pixel_count_y = cy, pixel_size_x = sx, pixel_size_y = sy,
         spline_distortion_reference = spline_ref, mask_reference = mask_ref\<rparr>)"

section \<open>The build manifest: \<^verbatim>\<open>setup.py\<close>\<close>

text \<open>
  The script reads and executes \<^verbatim>\<open>pyxem/release_info.py\<close>, builds the table of optional
  requirements, and calls setuptools with keyword arguments, five of which are names the
  executed file is expected to have bound and one of which reads \<^verbatim>\<open>README.rst\<close>.
  The model returns the keyword arguments the call is made with, or the exception raised
  before the call is reached. What setuptools does with the arguments is not part of the
  repository.
\<close>

type_synonym filesystem = "string \<rightharpoonup> string"

text \<open>\<^verbatim>\<open>open(path).read()\<close>: a missing file raises.\<close>

definition open_read :: "filesystem \<Rightarrow> string \<Rightarrow> py_error + string" where
  "open_read fs path = (case fs path of None \<Rightarrow> Inl (FileNotFoundError path) | Some s \<Rightarrow> Inr s)"

text \<open>
  Reading a global name of the script after the \<^verbatim>\<open>exec\<close>: a name the executed file
  bound is found in the globals; otherwise the builtins are searched. Of the five names
  the script reads, only \<^verbatim>\<open>license\<close> is also a builtin, and only when the
  interpreter has loaded its \<^verbatim>\<open>site\<close> module (it does unless started with \<^verbatim>\<open>-S\<close>);
  \<open>site\<close> tells which. Every other miss is a \<^verbatim>\<open>NameError\<close>.
\<close>

definition resolve :: "bool \<Rightarrow> namespace \<Rightarrow> string \<Rightarrow> py_error + py_value" where
  "resolve site g key =
     (case g key of
        Some v \<Rightarrow> Inr v
      | None \<Rightarrow> if site \<and> key = ''license'' then Inr (Printer ''license'') else Inl (NameError key))"

definition extra_feature_requirements :: "(string \<times> string list) list" where
  "extra_feature_requirements =
    [(''doc'',
       [''furo'',
        ''nbsphinx                   >= 0.7'',
        ''sphinx                     >= 3.0.2, <= 4.0.2'',
        ''sphinx-copybutton          >= 0.2.5'',
        ''sphinx-autodoc-typehints   >= 1.10.3'',
        ''sphinx-gallery             >= 0.6'',
        ''sphinxcontrib-bibtex       >= 1.0'']),
     (''tests'',
       [''pytest     >= 5.0'',
        ''pytest-cov >= 2.8.1'',
        ''coveralls  >= 1.10'',
        ''coverage   >= 5.0'']),
     (''dev'', [''black'', ''pre-commit >=1.16'']),
     (''gpu'', [''cupy >= 9.0.0''])]"

text \<open>
  The keyword arguments of the call, dictionaries as association lists in source order
  (\<open>keywords_arg\<close> is the argument \<^verbatim>\<open>keywords\<close>, a reserved word here).
\<close>

record setup_args =
  name :: py_value
  version :: py_value
  description :: string
  author :: py_value
  author_email :: py_value
  license :: py_value
  url :: string
  long_description :: string
  keywords_arg :: "string list"
  classifiers :: "string list"
  packages :: "string list"
  extras_require :: "(string \<times> string list) list"
  install_requires :: "string list"
  python_requires :: string
  package_data :: "(string \<times> string list) list"
  entry_points :: "(string \<times> string list) list"

text \<open>The literal arguments of the call.\<close>

definition setup_keywords :: "string list" where
  "setup_keywords =
    [''data analysis'',
     ''diffraction'',
     ''microscopy'',
     ''electron diffraction'',
     ''electron microscopy'']"

definition setup_classifiers :: "string list" where
  "setup_classifiers =
    [''Programming Language :: Python :: 3'',
     ''Programming Language :: Python :: 3.7'',
     ''Programming Language :: Python :: 3.8'',
     ''Programming Language :: Python :: 3.9'',
     ''Development Status :: 4 - Beta'',
     ''Intended Audience :: Science/Research'',
     ''License :: OSI Approved :: GNU General Public License v3 (GPLv3)'',
     ''Natural Language :: English'',
     ''Operating System :: OS Independent'',
     ''Topic :: Scientific/Engineering'',
     ''Topic :: Scientific/Engineering :: Physics'']"

definition setup_install_requires :: "string list" where
  "setup_install_requires =
    [''dask'',
     ''diffsims       ~= 0.4'',
     ''hyperspy       >= 1.7.0'',
     ''ipywidgets'',
     ''lmfit          >= 0.9.12'',
     ''matplotlib     >= 3.1.1'',
     ''numba'',
     ''numpy'',
     ''orix           >= 0.3'',
     ''psutil'',
     ''pyfai'',
     ''scikit-image   >= 0.17.0'',
     ''scikit-learn   >= 0.19'',
     ''scipy'',
     ''transforms3d'']"

definition setup_python_requires :: string where
  "setup_python_requires = ''>=3.7''"

definition setup_package_data :: "(string \<times> string list) list" where
  "setup_package_data =
    [([], [''LICENSE'', ''README.rst'']),
     (''pyxem'', [''*.py'', ''hyperspy_extension.yaml''])]"

definition setup_entry_points :: "(string \<times> string list) list" where
  "setup_entry_points = [(''hyperspy.extensions'', [''pyxem = pyxem''])]"

text \<open>An exception ends the script: the rest runs only on a value.\<close>

definition and_then :: "py_error + 'a \<Rightarrow> ('a \<Rightarrow> py_error + 'b) \<Rightarrow> py_error + 'b" where
  "and_then r f = (case r of Inl e \<Rightarrow> Inl e | Inr x \<Rightarrow> f x)"

text \<open>
  The script, statement by statement and argument by argument in the order Python
  evaluates them. \<open>run\<close> stands for the interpreter executing a source text in the
  script's globals: it gives the names the text binds, or the exception it raises (the
  text is taken to bind data names only, not to rebind \<^verbatim>\<open>open\<close> or the setuptools
  functions). \<open>found\<close> is what \<^verbatim>\<open>find_packages()\<close> returns.
\<close>

definition setup_py ::
  "(string \<Rightarrow> py_error + namespace) \<Rightarrow> bool \<Rightarrow> string list \<Rightarrow> filesystem \<Rightarrow> py_error + setup_args"
where
  "setup_py run site found fs =
    and_then (open_read fs ''pyxem/release_info.py'') (\<lambda>src.
    and_then (run src) (\<lambda>g.
    and_then (resolve site g ''name'') (\<lambda>v_name.
    and_then (resolve site g ''version'') (\<lambda>v_version.
    and_then (resolve site g ''author'') (\<lambda>v_author.
    and_then (resolve site g ''email'') (\<lambda>v_email.
    and_then (resolve site g ''license'') (\<lambda>v_license.
    and_then (open_read fs ''README.rst'') (\<lambda>readme.
      Inr \<lparr>name = v_name,
           version = v_version,
           description = ''multi-dimensional diffraction microscopy'',
           author = v_author,
           author_email = v_email,
           license = v_license,
           url = ''https://github.com/pyxem/pyxem'',
           long_description = readme,
           keywords_arg = setup_keywords,
           classifiers = setup_classifiers,
           packages = found,
           extras_require = extra_feature_requirements,
           install_requires = setup_install_requires,
           python_requires = setup_python_requires,
           package_data = setup_package_data,
           entry_points = setup_entry_points\<rparr>))))))))"


text \<open>
  The whole step: the call hands the arguments to setuptools, which runs the command it
  was started with (\<^verbatim>\<open>egg_info\<close>, \<^verbatim>\<open>build_py\<close>, \<^verbatim>\<open>--name\<close>, ...). \<open>cmd\<close> stands for
  setuptools running that command on the arguments: its result, or the exception it
  raises. It runs only if the script reaches the call.
\<close>

definition setup_step ::
  "(setup_args \<Rightarrow> py_error + 'r) \<Rightarrow> (string \<Rightarrow> py_error + namespace) \<Rightarrow> bool \<Rightarrow> string list \<Rightarrow>
     filesystem \<Rightarrow> py_error + 'r"
where
  "setup_step cmd run site found fs = and_then (setup_py run site found fs) cmd"

section \<open>Facts about the package dictionary\<close>

lemma module_ns_eq:
  "module_ns =
    [(''__name__'', Str ''pyxem.detectors''),
     (''__doc__'', Str ''Detectors defined fro pyFAI integration''),
     (''__package__'', Str ''pyxem.detectors''),
     (''__loader__'', EnvValue ''__loader__''),
     (''__spec__'', EnvValue ''__spec__''),
     (''__path__'', EnvValue ''__path__''),
     (''__file__'', EnvValue ''__file__''),
     (''__cached__'', EnvValue ''__cached__''),
     (''__builtins__'', EnvValue ''__builtins__''),
     (''generic_flat_detector'', Submodule ''generic_flat_detector''),
     (''GenericFlatDetector'', DetectorClass GenericFlatDetector),
     (''medipix_256x256'', Submodule ''medipix_256x256''),
     (''Medipix256x256Detector'', DetectorClass Medipix256x256Detector),
     (''medipix_515x515'', Submodule ''medipix_515x515''),
     (''Medipix515x515Detector'', DetectorClass Medipix515x515Detector),
     (''__all__'',
        StrList [''GenericFlatDetector'', ''Medipix256x256Detector'', ''Medipix515x515Detector''])]"
  by (simp add: module_ns_def detectors_init_def import_attrs_def)

text \<open>The sixteen names the dictionary binds.\<close>

lemma dom_module_ns:
  "dom (map_of module_ns) =
     {''__name__'', ''__doc__'', ''__package__'', ''__loader__'', ''__spec__'', ''__path__'',
      ''__file__'', ''__cached__'', ''__builtins__'',
      ''generic_flat_detector'', ''GenericFlatDetector'',
      ''medipix_256x256'', ''Medipix256x256Detector'',
      ''medipix_515x515'', ''Medipix515x515Detector'', ''__all__''}"
  unfolding module_ns_eq dom_map_of_conv_image_fst by simp

text \<open>The lookup, key by key.\<close>

lemma get_cases:
  "get key =
    (if key = ''__name__'' then Inr (Str ''pyxem.detectors'')
     else if key = ''__doc__'' then Inr (Str ''Detectors defined fro pyFAI integration'')
     else if key = ''__package__'' then Inr (Str ''pyxem.detectors'')
     else if key = ''__loader__'' then Inr (EnvValue ''__loader__'')
     else if key = ''__spec__'' then Inr (EnvValue ''__spec__'')
     else if key = ''__path__'' then Inr (EnvValue ''__path__'')
     else if key = ''__file__'' then Inr (EnvValue ''__file__'')
     else if key = ''__cached__'' then Inr (EnvValue ''__cached__'')
     else if key = ''__builtins__'' then Inr (EnvValue ''__builtins__'')
     else if key = ''generic_flat_detector'' then Inr (Submodule ''generic_flat_detector'')
     else if key = ''GenericFlatDetector'' then Inr (DetectorClass GenericFlatDetector)
     else if key = ''medipix_256x256'' then Inr (Submodule ''medipix_256x256'')
     else if key = ''Medipix256x256Detector'' then Inr (DetectorClass Medipix256x256Detector)
     else if key = ''medipix_515x515'' then Inr (Submodule ''medipix_515x515'')
     else if key = ''Medipix515x515Detector'' then Inr (DetectorClass Medipix515x515Detector)
     else if key = ''__all__'' then
       Inr (StrList [''GenericFlatDetector'', ''Medipix256x256Detector'', ''Medipix515x515Detector''])
     else Inl (KeyError key))"
  unfolding get_def dict_get_def module_ns_eq by auto

lemma lookup_op_state: "snd (lookup_op key ns) = ns"
  by (simp add: lookup_op_def)

lemma get_twice_eq: "get_twice key = (get key, get key)"
  by (simp add: get_twice_def lookup_op_def get_def)

section \<open>Lookup by name\<close>

text \<open>
  C1 (as the code has it). For every string key, the lookup in the package dictionary
  returns a detector exactly when the key is one of the three class names the package
  imports and lists in \<^verbatim>\<open>__all__\<close>, \<^verbatim>\<open>GenericFlatDetector\<close>, \<^verbatim>\<open>Medipix256x256Detector\<close>
  and \<^verbatim>\<open>Medipix515x515Detector\<close>, and it is then the class of that name. The lookup
  fails exactly for the keys outside the sixteen names the dictionary binds (the three
  class names, the three submodule names, \<^verbatim>\<open>__all__\<close>, \<^verbatim>\<open>__doc__\<close> and the eight other
  attributes of the import system), and whenever it fails it raises the not-found error
  (\<^verbatim>\<open>KeyError\<close>) for that very key: nothing is substituted.
\<close>

theorem get_detector_iff_class_name:
  "((\<exists>d. get key = Inr (DetectorClass d)) =
      (key \<in> {''GenericFlatDetector'', ''Medipix256x256Detector'', ''Medipix515x515Detector''}))
   \<and> (get key = Inl (KeyError key)) =
      (key \<notin> {''GenericFlatDetector'', ''Medipix256x256Detector'', ''Medipix515x515Detector'',
                ''generic_flat_detector'', ''medipix_256x256'', ''medipix_515x515'',
                ''__all__'', ''__doc__'', ''__name__'', ''__package__'', ''__loader__'',
                ''__spec__'', ''__path__'', ''__file__'', ''__cached__'', ''__builtins__''})
   \<and> isl (get key) = (get key = Inl (KeyError key))
   \<and> get (class_name c) = Inr (DetectorClass c)"
proof -
  have a: "(\<exists>d. get key = Inr (DetectorClass d)) =
      (key \<in> {''GenericFlatDetector'', ''Medipix256x256Detector'', ''Medipix515x515Detector''})"
    by (simp add: get_cases)
  have b: "(get key = Inl (KeyError key)) =
      (key \<notin> {''GenericFlatDetector'', ''Medipix256x256Detector'', ''Medipix515x515Detector'',
                ''generic_flat_detector'', ''medipix_256x256'', ''medipix_515x515'',
                ''__all__'', ''__doc__'', ''__name__'', ''__package__'', ''__loader__'',
                ''__spec__'', ''__path__'', ''__file__'', ''__cached__'', ''__builtins__''})"
    by (simp add: get_cases)
  have c: "isl (get key) = (get key = Inl (KeyError key))"
    by (simp add: get_cases)
  have d: "get (class_name c) = Inr (DetectorClass c)"
    by (cases c) (simp_all add: get_cases)
  from a b c d show ?thesis by blast
qed

text \<open>
  The keys \<^verbatim>\<open>generic_flat\<close>, \<^verbatim>\<open>medipix_256x256\<close>, \<^verbatim>\<open>medipix_515x515\<close> are not those
  of the code: \<^verbatim>\<open>generic_flat\<close> is bound to nothing and \<^verbatim>\<open>medipix_256x256\<close> to a
  submodule, while \<^verbatim>\<open>GenericFlatDetector\<close>, which is not one of these three, yields a
  detector. Nor does every key outside the detector names fail: \<^verbatim>\<open>generic_flat_detector\<close>
  and \<^verbatim>\<open>__name__\<close> are bound, to values that are not detectors.
\<close>

theorem get_generic_flat_not_found:
  "get ''generic_flat'' = Inl (KeyError ''generic_flat'')
   \<and> get ''medipix_256x256'' = Inr (Submodule ''medipix_256x256'')
   \<and> get ''GenericFlatDetector'' = Inr (DetectorClass GenericFlatDetector)
   \<and> get ''generic_flat_detector'' = Inr (Submodule ''generic_flat_detector'')
   \<and> get ''__name__'' = Inr (Str ''pyxem.detectors'')"
  by (simp add: get_cases)

section \<open>Listing of the names\<close>

text \<open>
  C2. The listing (\<^verbatim>\<open>__all__\<close>) is the fixed list of three names, in source order and
  without duplicates, and these are exactly the keys under which the lookup returns a
  detector; a star import, which walks the listing, finds every listed name bound.
\<close>

theorem listing_exact:
  "listing = Inr (StrList [''GenericFlatDetector'', ''Medipix256x256Detector'', ''Medipix515x515Detector''])
   \<and> distinct [''GenericFlatDetector'', ''Medipix256x256Detector'', ''Medipix515x515Detector'']
   \<and> length [''GenericFlatDetector'', ''Medipix256x256Detector'', ''Medipix515x515Detector''] = 3
   \<and> set [''GenericFlatDetector'', ''Medipix256x256Detector'', ''Medipix515x515Detector'']
       = {key. \<exists>d. get key = Inr (DetectorClass d)}
   \<and> star_import module_ns =
       Inr [(''GenericFlatDetector'', DetectorClass GenericFlatDetector),
            (''Medipix256x256Detector'', DetectorClass Medipix256x256Detector),
            (''Medipix515x515Detector'', DetectorClass Medipix515x515Detector)]"
proof -
  let ?names = "[''GenericFlatDetector'', ''Medipix256x256Detector'', ''Medipix515x515Detector'']"
  have all: "get ''__all__'' = Inr (StrList ?names)"
    by (simp add: get_cases)
  then have l: "listing = Inr (StrList ?names)"
    by (simp add: listing_def get_def)
  have d: "distinct ?names" "length ?names = 3"
    by simp_all
  have "\<And>key. (key \<in> set ?names) = (\<exists>d. get key = Inr (DetectorClass d))"
    by (simp add: get_cases)
  then have s: "set ?names = {key. \<exists>d. get key = Inr (DetectorClass d)}"
    by blast
  have m: "map_of module_ns ''__all__'' = Some (StrList ?names)"
    "map_of module_ns ''GenericFlatDetector'' = Some (DetectorClass GenericFlatDetector)"
    "map_of module_ns ''Medipix256x256Detector'' = Some (DetectorClass Medipix256x256Detector)"
    "map_of module_ns ''Medipix515x515Detector'' = Some (DetectorClass Medipix515x515Detector)"
    unfolding module_ns_eq by simp_all
  have i: "star_import module_ns =
       Inr [(''GenericFlatDetector'', DetectorClass GenericFlatDetector),
            (''Medipix256x256Detector'', DetectorClass Medipix256x256Detector),
            (''Medipix515x515Detector'', DetectorClass Medipix515x515Detector)]"
    by (simp add: star_import_def getattr_def m)
  from l d s i show ?thesis by blast
qed

section \<open>Repeated lookup\<close>

text \<open>
  C4. Two lookups of the same key in a row, the second on the dictionary the first left
  behind, give the same result, which is the result of a single lookup; this holds for
  every key. For each of the three names of the listing both lookups succeed, and both
  return the one detector class of that name.
\<close>

theorem get_twice_same:
  "fst (get_twice key) = snd (get_twice key) \<and> fst (get_twice key) = get key
   \<and> get_twice ''GenericFlatDetector'' =
        (Inr (DetectorClass GenericFlatDetector), Inr (DetectorClass GenericFlatDetector))
   \<and> get_twice ''Medipix256x256Detector'' =
        (Inr (DetectorClass Medipix256x256Detector), Inr (DetectorClass Medipix256x256Detector))
   \<and> get_twice ''Medipix515x515Detector'' =
        (Inr (DetectorClass Medipix515x515Detector), Inr (DetectorClass Medipix515x515Detector))
   \<and> get_twice (class_name c) = (Inr (DetectorClass c), Inr (DetectorClass c))"
proof -
  have "get (class_name c) = Inr (DetectorClass c)"
    by (cases c) (simp_all add: get_cases)
  then show ?thesis
    by (simp add: get_twice_eq get_cases)
qed

section \<open>Round trip of a descriptor through its field tuple\<close>

text \<open>
  C7. Serialising a descriptor to its field tuple and reconstructing a descriptor from
  that tuple gives back the original, equal in every field.
\<close>

theorem field_tuple_round_trip:
  "from_field_tuple (to_field_tuple d) = d"
  by (simp add: to_field_tuple_def from_field_tuple_def)

section \<open>Facts about the build manifest\<close>

lemma and_then_Inr: "and_then r f = Inr y \<Longrightarrow> \<exists>x. r = Inr x \<and> f x = Inr y"
  by (cases r) (simp_all add: and_then_def)

lemma isl_and_then: "isl (and_then r f) = (case r of Inl e \<Rightarrow> True | Inr x \<Rightarrow> isl (f x))"
  by (cases r) (simp_all add: and_then_def)

text \<open>Whenever the call is reached, its literal arguments are those of the source.\<close>

lemma setup_py_args:
  assumes "setup_py run site found fs = Inr args"
  shows "entry_points args = setup_entry_points"
    and "install_requires args = setup_install_requires"
    and "python_requires args = setup_python_requires"
  using assms unfolding setup_py_def
  by (auto dest!: and_then_Inr)

text \<open>When the script raises before the call, exactly.\<close>

lemma setup_py_raises_iff:
  "isl (setup_py run site found fs) =
    (case fs ''pyxem/release_info.py'' of
       None \<Rightarrow> True
     | Some src \<Rightarrow>
        (case run src of
           Inl e \<Rightarrow> True
         | Inr g \<Rightarrow>
             g ''name'' = None \<or> g ''version'' = None \<or> g ''author'' = None \<or> g ''email'' = None
             \<or> (g ''license'' = None \<and> \<not> site) \<or> fs ''README.rst'' = None))"
  unfolding setup_py_def
  by (auto simp: isl_and_then resolve_def open_read_def split: option.splits sum.splits)

section \<open>The entry point\<close>

text \<open>
  C8. The manifest declares one entry-point group, \<^verbatim>\<open>hyperspy.extensions\<close>, holding the
  single entry \<^verbatim>\<open>pyxem = pyxem\<close>: whenever the script reaches its call, that is the
  \<open>entry_points\<close> argument.
\<close>

theorem entry_point_declared:
  assumes "setup_py run site found fs = Inr args"
  shows "entry_points args = [(''hyperspy.extensions'', [''pyxem = pyxem''])]
       \<and> map_of (entry_points args) ''hyperspy.extensions'' = Some [''pyxem = pyxem'']"
  using setup_py_args(1) [OF assms] by (simp add: setup_entry_points_def)

theorem entry_point_declared_witness:
  "\<exists>args.
     setup_py
       (\<lambda>src. Inr [''name'' \<mapsto> Str [], ''version'' \<mapsto> Str [], ''author'' \<mapsto> Str [],
                   ''email'' \<mapsto> Str [], ''license'' \<mapsto> Str []])
       True [''pyxem'', ''pyxem.detectors'']
       [''pyxem/release_info.py'' \<mapsto> ''name = version = author = email = license = str()'',
        ''README.rst'' \<mapsto> ''pyxem'']
     = Inr args
     \<and> map_of (entry_points args) ''hyperspy.extensions'' = Some [''pyxem = pyxem'']"
proof -
  let ?r = "setup_py
       (\<lambda>src. Inr [''name'' \<mapsto> Str [], ''version'' \<mapsto> Str [], ''author'' \<mapsto> Str [],
                   ''email'' \<mapsto> Str [], ''license'' \<mapsto> Str []])
       True [''pyxem'', ''pyxem.detectors'']
       [''pyxem/release_info.py'' \<mapsto> ''name = version = author = email = license = str()'',
        ''README.rst'' \<mapsto> ''pyxem'']"
  have "\<not> isl ?r"
    by (simp add: setup_py_raises_iff)
  then obtain args where a: "?r = Inr args"
    by (cases ?r) simp_all
  from entry_point_declared [OF a] a show ?thesis
    by blast
qed

section \<open>Runtime requirements\<close>

text \<open>
  C9. The manifest lists \<^verbatim>\<open>pyfai\<close> among the packages every installation requires and
  restricts installation to Python 3.7 or later: whenever the script reaches its call,
  \<open>install_requires\<close> contains \<^verbatim>\<open>pyfai\<close> and \<open>python_requires\<close> is \<^verbatim>\<open>>=3.7\<close>.
\<close>

theorem pyfai_required:
  assumes "setup_py run site found fs = Inr args"
  shows "''pyfai'' \<in> set (install_requires args) \<and> python_requires args = ''>=3.7''"
  using setup_py_args(2,3) [OF assms]
  by (simp add: setup_install_requires_def setup_python_requires_def)

theorem pyfai_required_witness:
  "\<exists>args.
     setup_py
       (\<lambda>src. Inr [''name'' \<mapsto> Str [], ''version'' \<mapsto> Str [], ''author'' \<mapsto> Str [],
                   ''email'' \<mapsto> Str [], ''license'' \<mapsto> Str []])
       False [''pyxem'']
       [''pyxem/release_info.py'' \<mapsto> ''name = version = author = email = license = str()'',
        ''README.rst'' \<mapsto> ''pyxem'']
     = Inr args
     \<and> ''pyfai'' \<in> set (install_requires args) \<and> python_requires args = ''>=3.7''"
proof -
  let ?r = "setup_py
       (\<lambda>src. Inr [''name'' \<mapsto> Str [], ''version'' \<mapsto> Str [], ''author'' \<mapsto> Str [],
                   ''email'' \<mapsto> Str [], ''license'' \<mapsto> Str []])
       False [''pyxem'']
       [''pyxem/release_info.py'' \<mapsto> ''name = version = author = email = license = str()'',
        ''README.rst'' \<mapsto> ''pyxem'']"
  have "\<not> isl ?r"
    by (simp add: setup_py_raises_iff)
  then obtain args where a: "?r = Inr args"
    by (cases ?r) simp_all
  from pyfai_required [OF a] a show ?thesis
    by blast
qed

section \<open>Failure before the call\<close>

text \<open>The script's outcome, case by case in the order it evaluates.\<close>

lemma setup_py_cases:
  "setup_py run site found fs =
    (case fs ''pyxem/release_info.py'' of
       None \<Rightarrow> Inl (FileNotFoundError ''pyxem/release_info.py'')
     | Some src \<Rightarrow>
    (case run src of
       Inl e \<Rightarrow> Inl e
     | Inr g \<Rightarrow>
    (case g ''name'' of None \<Rightarrow> Inl (NameError ''name'') | Some v_name \<Rightarrow>
    (case g ''version'' of None \<Rightarrow> Inl (NameError ''version'') | Some v_version \<Rightarrow>
    (case g ''author'' of None \<Rightarrow> Inl (NameError ''author'') | Some v_author \<Rightarrow>
    (case g ''email'' of None \<Rightarrow> Inl (NameError ''email'') | Some v_email \<Rightarrow>
    (case (case g ''license'' of
             Some v \<Rightarrow> Some v
           | None \<Rightarrow> if site then Some (Printer ''license'') else None) of
       None \<Rightarrow> Inl (NameError ''license'')
     | Some v_license \<Rightarrow>
    (case fs ''README.rst'' of
       None \<Rightarrow> Inl (FileNotFoundError ''README.rst'')
     | Some readme \<Rightarrow>
        Inr \<lparr>name = v_name, version = v_version,
             description = ''multi-dimensional diffraction microscopy'',
             author = v_author, author_email = v_email, license = v_license,
             url = ''https://github.com/pyxem/pyxem'', long_description = readme,
             keywords_arg = setup_keywords, classifiers = setup_classifiers,
             packages = found, extras_require = extra_feature_requirements,
             install_requires = setup_install_requires,
             python_requires = setup_python_requires,
             package_data = setup_package_data,
             entry_points = setup_entry_points\<rparr>))))))))"
  unfolding setup_py_def and_then_def open_read_def resolve_def
  by (simp split: option.splits sum.splits)

text \<open>
  C10 (as the code has it). The script reads and executes \<^verbatim>\<open>pyxem/release_info.py\<close>
  and reads \<^verbatim>\<open>README.rst\<close> before it calls setuptools, so that, whatever the
  setuptools command, the step fails and the call with its metadata and entry point is
  never made in each of these cases: the release file is absent (\<^verbatim>\<open>FileNotFoundError\<close>
  naming it); executing it raises (that exception); it leaves \<^verbatim>\<open>name\<close>, \<^verbatim>\<open>version\<close>,
  \<^verbatim>\<open>author\<close> or \<^verbatim>\<open>email\<close> unbound (\<^verbatim>\<open>NameError\<close> naming the first of them that is
  unbound); it binds these four but leaves \<^verbatim>\<open>license\<close> unbound in an interpreter
  without the \<^verbatim>\<open>site\<close> builtins (\<^verbatim>\<open>NameError\<close> naming \<^verbatim>\<open>license\<close>); all five names
  resolve but \<^verbatim>\<open>README.rst\<close> is absent (\<^verbatim>\<open>FileNotFoundError\<close> naming it). When the
  release file binds the four names but not \<^verbatim>\<open>license\<close>, the interpreter has the
  \<^verbatim>\<open>site\<close> builtins and \<^verbatim>\<open>README.rst\<close> is present, the call is made, with the builtin
  as its \<^verbatim>\<open>license\<close> and with the entry point, and the step is whatever setuptools
  makes of these arguments.
\<close>

theorem setup_step_raises_before_call:
  "(fs ''pyxem/release_info.py'' = None \<longrightarrow>
      setup_step cmd run site found fs = Inl (FileNotFoundError ''pyxem/release_info.py''))
   \<and> (fs ''pyxem/release_info.py'' = Some src \<and> run src = Inl e \<longrightarrow>
      setup_step cmd run site found fs = Inl e)
   \<and> (fs ''pyxem/release_info.py'' = Some src \<and> run src = Inr g \<and> g ''name'' = None \<longrightarrow>
      setup_step cmd run site found fs = Inl (NameError ''name''))
   \<and> (fs ''pyxem/release_info.py'' = Some src \<and> run src = Inr g \<and> g ''name'' = Some a
        \<and> g ''version'' = None \<longrightarrow>
      setup_step cmd run site found fs = Inl (NameError ''version''))
   \<and> (fs ''pyxem/release_info.py'' = Some src \<and> run src = Inr g \<and> g ''name'' = Some a
        \<and> g ''version'' = Some b \<and> g ''author'' = None \<longrightarrow>
      setup_step cmd run site found fs = Inl (NameError ''author''))
   \<and> (fs ''pyxem/release_info.py'' = Some src \<and> run src = Inr g \<and> g ''name'' = Some a
        \<and> g ''version'' = Some b \<and> g ''author'' = Some c \<and> g ''email'' = None \<longrightarrow>
      setup_step cmd run site found fs = Inl (NameError ''email''))
   \<and> (fs ''pyxem/release_info.py'' = Some src \<and> run src = Inr g \<and> g ''name'' = Some a
        \<and> g ''version'' = Some b \<and> g ''author'' = Some c \<and> g ''email'' = Some d
        \<and> g ''license'' = None \<and> \<not> site \<longrightarrow>
      setup_step cmd run site found fs = Inl (NameError ''license''))
   \<and> (fs ''pyxem/release_info.py'' = Some src \<and> run src = Inr g \<and> g ''name'' = Some a
        \<and> g ''version'' = Some b \<and> g ''author'' = Some c \<and> g ''email'' = Some d
        \<and> (site \<or> g ''license'' = Some l) \<and> fs ''README.rst'' = None \<longrightarrow>
      setup_step cmd run site found fs = Inl (FileNotFoundError ''README.rst''))
   \<and> (fs ''pyxem/release_info.py'' = Some src \<and> run src = Inr g \<and> g ''name'' = Some a
        \<and> g ''version'' = Some b \<and> g ''author'' = Some c \<and> g ''email'' = Some d
        \<and> g ''license'' = None \<and> site \<and> fs ''README.rst'' = Some readme \<longrightarrow>
      setup_step cmd run site found fs =
        cmd \<lparr>name = a, version = b,
             description = ''multi-dimensional diffraction microscopy'',
             author = c, author_email = d, license = Printer ''license'',
             url = ''https://github.com/pyxem/pyxem'', long_description = readme,
             keywords_arg = setup_keywords, classifiers = setup_classifiers,
             packages = found, extras_require = extra_feature_requirements,
             install_requires = setup_install_requires,
             python_requires = ''>=3.7'',
             package_data = setup_package_data,
             entry_points = [(''hyperspy.extensions'', [''pyxem = pyxem''])]\<rparr>)"
  unfolding setup_step_def setup_py_cases
  by (auto simp: and_then_def setup_python_requires_def setup_entry_points_def
           split: option.splits)

text \<open>
  Each case at a concrete input. The command is \<^verbatim>\<open>--name\<close>, which prints the name it
  was given; the release files bind the names they bind to the empty string.
\<close>

theorem setup_step_raises_before_call_witness:
  "setup_step (\<lambda>args. Inr (name args)) (\<lambda>src. Inr Map.empty) True [''pyxem''] Map.empty
     = Inl (FileNotFoundError ''pyxem/release_info.py'')
   \<and> setup_step (\<lambda>args. Inr (name args)) (\<lambda>src. Inl (ExecError src)) True [''pyxem'']
        [''pyxem/release_info.py'' \<mapsto> ''raise SystemExit'', ''README.rst'' \<mapsto> ''pyxem'']
     = Inl (ExecError ''raise SystemExit'')
   \<and> setup_step (\<lambda>args. Inr (name args)) (\<lambda>src. Inr Map.empty) True [''pyxem'']
        [''pyxem/release_info.py'' \<mapsto> ''pass'', ''README.rst'' \<mapsto> ''pyxem'']
     = Inl (NameError ''name'')
   \<and> setup_step (\<lambda>args. Inr (name args)) (\<lambda>src. Inr [''name'' \<mapsto> Str []]) True [''pyxem'']
        [''pyxem/release_info.py'' \<mapsto> ''name = str()'', ''README.rst'' \<mapsto> ''pyxem'']
     = Inl (NameError ''version'')
   \<and> setup_step (\<lambda>args. Inr (name args))
        (\<lambda>src. Inr [''name'' \<mapsto> Str [], ''version'' \<mapsto> Str []]) True [''pyxem'']
        [''pyxem/release_info.py'' \<mapsto> ''name = version = str()'', ''README.rst'' \<mapsto> ''pyxem'']
     = Inl (NameError ''author'')
   \<and> setup_step (\<lambda>args. Inr (name args))
        (\<lambda>src. Inr [''name'' \<mapsto> Str [], ''version'' \<mapsto> Str [], ''author'' \<mapsto> Str []])
        True [''pyxem'']
        [''pyxem/release_info.py'' \<mapsto> ''name = version = author = str()'',
         ''README.rst'' \<mapsto> ''pyxem'']
     = Inl (NameError ''email'')
   \<and> setup_step (\<lambda>args. Inr (name args))
        (\<lambda>src. Inr [''name'' \<mapsto> Str [], ''version'' \<mapsto> Str [], ''author'' \<mapsto> Str [],
                    ''email'' \<mapsto> Str []])
        False [''pyxem'']
        [''pyxem/release_info.py'' \<mapsto> ''name = version = author = email = str()'',
         ''README.rst'' \<mapsto> ''pyxem'']
     = Inl (NameError ''license'')
   \<and> setup_step (\<lambda>args. Inr (name args))
        (\<lambda>src. Inr [''name'' \<mapsto> Str [], ''version'' \<mapsto> Str [], ''author'' \<mapsto> Str [],
                    ''email'' \<mapsto> Str [], ''license'' \<mapsto> Str []])
        True [''pyxem'']
        [''pyxem/release_info.py'' \<mapsto> ''name = version = author = email = license = str()'']
     = Inl (FileNotFoundError ''README.rst'')
   \<and> setup_step (\<lambda>args. Inr (license args, entry_points args))
        (\<lambda>src. Inr [''name'' \<mapsto> Str [], ''version'' \<mapsto> Str [], ''author'' \<mapsto> Str [],
                    ''email'' \<mapsto> Str []])
        True [''pyxem'']
        [''pyxem/release_info.py'' \<mapsto> ''name = version = author = email = str()'',
         ''README.rst'' \<mapsto> ''pyxem'']
     = Inr (Printer ''license'', [(''hyperspy.extensions'', [''pyxem = pyxem''])])"
proof -
  note T = setup_step_raises_before_call
  let ?cmd = "\<lambda>args. Inr (name args) :: py_error + py_value"
  let ?g1 = "[''name'' \<mapsto> Str []]"
  let ?g2 = "[''name'' \<mapsto> Str [], ''version'' \<mapsto> Str []]"
  let ?g3 = "[''name'' \<mapsto> Str [], ''version'' \<mapsto> Str [], ''author'' \<mapsto> Str []]"
  let ?g4 = "[''name'' \<mapsto> Str [], ''version'' \<mapsto> Str [], ''author'' \<mapsto> Str [],
              ''email'' \<mapsto> Str []]"
  let ?g5 = "[''name'' \<mapsto> Str [], ''version'' \<mapsto> Str [], ''author'' \<mapsto> Str [],
              ''email'' \<mapsto> Str [], ''license'' \<mapsto> Str []]"
  have w1: "setup_step ?cmd (\<lambda>src. Inr Map.empty) True [''pyxem''] Map.empty
      = Inl (FileNotFoundError ''pyxem/release_info.py'')"
    using T [where fs = Map.empty and cmd = ?cmd] by simp
  have w2: "setup_step ?cmd (\<lambda>src. Inl (ExecError src)) True [''pyxem'']
        [''pyxem/release_info.py'' \<mapsto> ''raise SystemExit'', ''README.rst'' \<mapsto> ''pyxem'']
      = Inl (ExecError ''raise SystemExit'')"
    using T [where fs = "[''pyxem/release_info.py'' \<mapsto> ''raise SystemExit'',
                          ''README.rst'' \<mapsto> ''pyxem'']"
        and cmd = ?cmd and run = "\<lambda>src. Inl (ExecError src)" and src = "''raise SystemExit''"
        and e = "ExecError ''raise SystemExit''"]
    by simp
  have w3: "setup_step ?cmd (\<lambda>src. Inr Map.empty) True [''pyxem'']
        [''pyxem/release_info.py'' \<mapsto> ''pass'', ''README.rst'' \<mapsto> ''pyxem'']
      = Inl (NameError ''name'')"
    using T [where fs = "[''pyxem/release_info.py'' \<mapsto> ''pass'', ''README.rst'' \<mapsto> ''pyxem'']"
        and cmd = ?cmd and run = "\<lambda>src. Inr Map.empty" and src = "''pass''" and g = Map.empty]
    by simp
  have w4: "setup_step ?cmd (\<lambda>src. Inr ?g1) True [''pyxem'']
        [''pyxem/release_info.py'' \<mapsto> ''name = str()'', ''README.rst'' \<mapsto> ''pyxem'']
      = Inl (NameError ''version'')"
    using T [where fs = "[''pyxem/release_info.py'' \<mapsto> ''name = str()'',
                          ''README.rst'' \<mapsto> ''pyxem'']"
        and cmd = ?cmd and run = "\<lambda>src. Inr ?g1" and src = "''name = str()''" and g = ?g1
        and a = "Str []"]
    by simp
  have w5: "setup_step ?cmd (\<lambda>src. Inr ?g2) True [''pyxem'']
        [''pyxem/release_info.py'' \<mapsto> ''name = version = str()'', ''README.rst'' \<mapsto> ''pyxem'']
      = Inl (NameError ''author'')"
    using T [where fs = "[''pyxem/release_info.py'' \<mapsto> ''name = version = str()'',
                          ''README.rst'' \<mapsto> ''pyxem'']"
        and cmd = ?cmd and run = "\<lambda>src. Inr ?g2" and src = "''name = version = str()''"
        and g = ?g2 and a = "Str []" and b = "Str []"]
    by simp
  have w6: "setup_step ?cmd (\<lambda>src. Inr ?g3) True [''pyxem'']
        [''pyxem/release_info.py'' \<mapsto> ''name = version = author = str()'',
         ''README.rst'' \<mapsto> ''pyxem'']
      = Inl (NameError ''email'')"
    using T [where fs = "[''pyxem/release_info.py'' \<mapsto> ''name = version = author = str()'',
                          ''README.rst'' \<mapsto> ''pyxem'']"
        and cmd = ?cmd and run = "\<lambda>src. Inr ?g3" and src = "''name = version = author = str()''"
        and g = ?g3 and a = "Str []" and b = "Str []" and c = "Str []"]
    by simp
  have w7: "setup_step ?cmd (\<lambda>src. Inr ?g4) False [''pyxem'']
        [''pyxem/release_info.py'' \<mapsto> ''name = version = author = email = str()'',
         ''README.rst'' \<mapsto> ''pyxem'']
      = Inl (NameError ''license'')"
    using T [where fs = "[''pyxem/release_info.py'' \<mapsto> ''name = version = author = email = str()'',
                          ''README.rst'' \<mapsto> ''pyxem'']"
        and cmd = ?cmd and run = "\<lambda>src. Inr ?g4" and site = False
        and src = "''name = version = author = email = str()''"
        and g = ?g4 and a = "Str []" and b = "Str []" and c = "Str []" and d = "Str []"]
    by simp
  have w8: "setup_step ?cmd (\<lambda>src. Inr ?g5) True [''pyxem'']
        [''pyxem/release_info.py'' \<mapsto> ''name = version = author = email = license = str()'']
      = Inl (FileNotFoundError ''README.rst'')"
    using T [where fs = "[''pyxem/release_info.py'' \<mapsto>
                            ''name = version = author = email = license = str()'']"
        and cmd = ?cmd and run = "\<lambda>src. Inr ?g5" and site = True
        and src = "''name = version = author = email = license = str()''"
        and g = ?g5 and a = "Str []" and b = "Str []" and c = "Str []" and d = "Str []"]
    by simp
  have w9: "setup_step (\<lambda>args. Inr (license args, entry_points args)) (\<lambda>src. Inr ?g4)
        True [''pyxem'']
        [''pyxem/release_info.py'' \<mapsto> ''name = version = author = email = str()'',
         ''README.rst'' \<mapsto> ''pyxem'']
      = Inr (Printer ''license'', [(''hyperspy.extensions'', [''pyxem = pyxem''])])"
    using T [where fs = "[''pyxem/release_info.py'' \<mapsto> ''name = version = author = email = str()'',
                          ''README.rst'' \<mapsto> ''pyxem'']"
        and cmd = "\<lambda>args. Inr (license args, entry_points args)"
        and run = "\<lambda>src. Inr ?g4" and site = True
        and src = "''name = version = author = email = str()''"
        and g = ?g4 and a = "Str []" and b = "Str []" and c = "Str []" and d = "Str []"
        and readme = "''pyxem''"]
    by simp
  from w1 w2 w3 w4 w5 w6 w7 w8 w9 show ?thesis
    by blast
qed

text \<open>
  With the \<^verbatim>\<open>site\<close> builtins, as an interpreter has them by default, a release file
  that binds the other four names but not \<^verbatim>\<open>license\<close> does not stop the script: the
  name is found among the builtins and the call is made. Under a command that accepts
  the arguments, here \<^verbatim>\<open>--name\<close>, the step does not fail.
\<close>

theorem setup_step_license_unbound_succeeds:
  "setup_step (\<lambda>args. Inr (name args))
     (\<lambda>src. Inr [''name'' \<mapsto> Str [], ''version'' \<mapsto> Str [],
                 ''author'' \<mapsto> Str [], ''email'' \<mapsto> Str []])
     True [''pyxem'']
     [''pyxem/release_info.py'' \<mapsto> ''name = version = author = email = str()'',
      ''README.rst'' \<mapsto> ''pyxem'']
   = Inr (Str [])"
  by (simp add: setup_step_def setup_py_cases and_then_def)

end
